theory Spec2Isabelle
  imports Complex_Main
begin

section \<open>The movement controller of the X-Y table (src/core/movement.py)\<close>

text \<open>
  The development embeds \<^verbatim>\<open>MovementController\<close> (src/core/movement.py) together with
  the one method of \<^verbatim>\<open>ConfigManager\<close> it calls (\<^verbatim>\<open>get\<close>, src/core/config.py).

  Conventions of the embedding:
  \<^item> Python floats and ints are real numbers (no rounding, no \<^verbatim>\<open>inf\<close>, no \<^verbatim>\<open>nan\<close>).
  \<^item> The arguments of the controller's methods have the types of their annotations:
    \<^verbatim>\<open>Optional[float]\<close> is \<open>real option\<close>, \<^verbatim>\<open>str\<close> is \<open>string\<close>.
  \<^item> An exception is a value \<open>Inl e\<close>; every method returns its result together with
    the controller after the call, since the attributes it has assigned persist when it raises.
  \<^item> Calls to the logger are left out: they do not touch the controller or the driver.
  \<^item> One caller at a time: a method runs to its end before the next one starts.
\<close>

subsection \<open>Python values\<close>

text \<open>
  What \<^verbatim>\<open>yaml.safe_load\<close> puts into the configuration and what the driver returns:
  \<^verbatim>\<open>None\<close>, booleans, numbers, strings, lists and dictionaries with string keys
  (an association list; the first entry of a key is the one looked up).
\<close>

datatype pyval =
    PNone
  | PBool bool
  | PNum real
  | PStr string
  | PList "pyval list"
  | PDict "(string \<times> pyval) list"

text \<open>Python's truth value of an object, as \<^verbatim>\<open>if not v:\<close> tests it.\<close>

fun truthy :: "pyval \<Rightarrow> bool" where
  "truthy PNone = False"
| "truthy (PBool b) = b"
| "truthy (PNum r) = (r \<noteq> 0)"
| "truthy (PStr s) = (s \<noteq> [])"
| "truthy (PList xs) = (xs \<noteq> [])"
| "truthy (PDict kvs) = (kvs \<noteq> [])"

text \<open>
  The exceptions the controller raises or lets through, named after the error taxonomy:
  \<^item> \<open>SafetyBlocked\<close>: \<^verbatim>\<open>RuntimeError("Emergency stop is active - movement blocked")\<close>
    (\<^verbatim>\<open>"... - jog blocked"\<close> in \<^verbatim>\<open>start_jog\<close>);
  \<^item> \<open>ValidationError\<close>: the \<^verbatim>\<open>ValueError\<close> of \<^verbatim>\<open>_validate_movement\<close> and of \<^verbatim>\<open>set_io\<close>;
  \<^item> \<open>BackendError\<close>: \<^verbatim>\<open>RuntimeError("MesaDriver failed to ...")\<close>, raised when a driver
    call returns a false value;
  \<^item> \<open>BackendRaised\<close>: an exception raised inside a driver call and re-raised by \<^verbatim>\<open>raise\<close>;
  \<^item> \<open>FloatValueError\<close>, \<open>PyTypeError\<close>: the \<^verbatim>\<open>ValueError\<close> and \<^verbatim>\<open>TypeError\<close> of Python's
    \<^verbatim>\<open>float()\<close> and \<^verbatim>\<open>>\<close> on a value that is not a number.
\<close>

datatype error =
    SafetyBlocked
  | ValidationError
  | BackendError
  | BackendRaised
  | FloatValueError
  | PyTypeError

subsection \<open>ConfigManager.get\<close>

text \<open>\<^verbatim>\<open>key.split('.')\<close>: the pieces between the separators, empty pieces included.\<close>

fun split_on :: "char \<Rightarrow> string \<Rightarrow> string list" where
  "split_on sep [] = [[]]"
| "split_on sep (c # cs) =
     (if c = sep then [] # split_on sep cs
      else (case split_on sep cs of
              [] \<Rightarrow> [[c]]
            | w # ws \<Rightarrow> (c # w) # ws))"

text \<open>
  The loop \<^verbatim>\<open>for k in keys: value = value[k]\<close>. \<open>None\<close> stands for the \<^verbatim>\<open>KeyError\<close>
  of a missing key and for the \<^verbatim>\<open>TypeError\<close> of subscripting a value that is not a
  dictionary with a string; \<^verbatim>\<open>get\<close> catches both.
\<close>

fun lookup_path :: "pyval \<Rightarrow> string list \<Rightarrow> pyval option" where
  "lookup_path v [] = Some v"
| "lookup_path (PDict kvs) (k # ks) =
     (case map_of kvs k of
        None \<Rightarrow> None
      | Some v \<Rightarrow> lookup_path v ks)"
| "lookup_path v (k # ks) = None"

definition config_get :: "pyval \<Rightarrow> string \<Rightarrow> pyval \<Rightarrow> pyval" where
  "config_get cfg key dflt =
     (case lookup_path cfg (split_on (CHR ''.'') key) of
        None \<Rightarrow> dflt
      | Some v \<Rightarrow> v)"

text \<open>
  Python's \<^verbatim>\<open>float(v)\<close>. What \<^verbatim>\<open>float\<close> reads from a string is Python's own grammar of
  numerals and no code of this repository: it is the parameter \<open>str_float\<close>
  (\<open>None\<close> where \<^verbatim>\<open>float\<close> raises \<^verbatim>\<open>ValueError\<close>).
\<close>

fun py_float :: "(string \<Rightarrow> real option) \<Rightarrow> pyval \<Rightarrow> error + real" where
  "py_float str_float (PNum r) = Inr r"
| "py_float str_float (PBool b) = Inr (if b then 1 else 0)"
| "py_float str_float (PStr s) =
     (case str_float s of
        None \<Rightarrow> Inl FloatValueError
      | Some r \<Rightarrow> Inr r)"
| "py_float str_float v = Inl PyTypeError"

text \<open>Python's \<^verbatim>\<open>speed > v\<close> for a float \<^verbatim>\<open>speed\<close>; a boolean compares as 0 or 1.\<close>

fun py_gt :: "real \<Rightarrow> pyval \<Rightarrow> error + bool" where
  "py_gt x (PNum m) = Inr (x > m)"
| "py_gt x (PBool b) = Inr (x > (if b then 1 else 0))"
| "py_gt x v = Inl PyTypeError"

text \<open>\<^verbatim>\<open>float(self.config.get('movement.default_speed', 1.0))\<close>\<close>

definition default_speed :: "(string \<Rightarrow> real option) \<Rightarrow> pyval \<Rightarrow> error + real" where
  "default_speed str_float cfg =
     py_float str_float (config_get cfg ''movement.default_speed'' (PNum 1))"

text \<open>\<^verbatim>\<open>self.config.get(f'hardware.{axis}_axis.motor.max_speed', 10.0)\<close>\<close>

definition max_speed :: "pyval \<Rightarrow> string \<Rightarrow> pyval" where
  "max_speed cfg axis =
     config_get cfg (''hardware.'' @ axis @ ''_axis.motor.max_speed'') (PNum 10)"

text \<open>
  \<^verbatim>\<open>_validate_movement(axis, distance, speed)\<close>: the one test is \<^verbatim>\<open>speed > max_speed\<close>;
  the position check is a \<^verbatim>\<open>TODO\<close> comment in the source.
\<close>

definition validate_movement :: "pyval \<Rightarrow> string \<Rightarrow> real \<Rightarrow> real \<Rightarrow> error + unit" where
  "validate_movement cfg axis distance speed =
     (case py_gt speed (max_speed cfg axis) of
        Inl e \<Rightarrow> Inl e
      | Inr True \<Rightarrow> Inl ValidationError
      | Inr False \<Rightarrow> Inr ())"

subsection \<open>The driver, seen from the controller\<close>

text \<open>
  The methods of \<^verbatim>\<open>MesaDriver\<close> (src/hardware/mesa_driver.py) that the controller calls.
\<close>

datatype call =
    Is_connected
  | Connect
  | Read_status
  | Move_axis string real real
  | Move_absolute real real
  | Home_all_axes
  | Emergency_stop
  | Clear_emergency_stop
  | Start_jog string int real
  | Stop_jog string
  | Set_io nat bool

datatype reply = Returns pyval | Raises

text \<open>
  A driver call leaves an event in the controller's \<open>history\<close>: the call, and the two flags
  of the controller at the moment of the call (what a reader of the flags sees while the
  driver is busy). The history is the only addition of the model to the attributes of the
  class.
\<close>

record event =
  ev_call :: call
  ev_estop :: bool
  ev_moving :: bool

text \<open>
  The attributes of \<^verbatim>\<open>MovementController\<close>. The driver object \<^verbatim>\<open>self.mesa_driver\<close> and the
  hardware behind it are the field \<open>driver\<close>: the reply to a call, given the calls made
  so far. Any driver is such a function; \<open>Raises\<close> is a call that raises.
\<close>

record movement_controller =
  config :: pyval
  emergency_stop_active :: bool
  movement_in_progress :: bool
  driver :: "call list \<Rightarrow> call \<Rightarrow> reply"
  history :: "event list"

text \<open>\<^verbatim>\<open>MovementController.__init__\<close>\<close>

definition init :: "pyval \<Rightarrow> (call list \<Rightarrow> call \<Rightarrow> reply) \<Rightarrow> movement_controller" where
  "init cfg drv =
     \<lparr>config = cfg, emergency_stop_active = False, movement_in_progress = False,
      driver = drv, history = []\<rparr>"

definition calls :: "movement_controller \<Rightarrow> call list" where
  "calls c = map ev_call (history c)"

definition invoke :: "movement_controller \<Rightarrow> call \<Rightarrow> reply \<times> movement_controller" where
  "invoke c k =
     (driver c (calls c) k,
      c\<lparr>history := history c @
           [\<lparr>ev_call = k, ev_estop = emergency_stop_active c,
             ev_moving = movement_in_progress c\<rparr>]\<rparr>)"

text \<open>\<^verbatim>\<open>if not self.mesa_driver.m(...): raise RuntimeError("MesaDriver failed to ...")\<close>\<close>

definition call_checked :: "movement_controller \<Rightarrow> call \<Rightarrow> (error + unit) \<times> movement_controller" where
  "call_checked c k =
     (case invoke c k of
        (Raises, c1) \<Rightarrow> (Inl BackendRaised, c1)
      | (Returns v, c1) \<Rightarrow> (if truthy v then Inr () else Inl BackendError, c1))"

text \<open>\<^verbatim>\<open>self.mesa_driver.m(...)\<close> as a statement: the value returned is dropped.\<close>

definition call_unchecked :: "movement_controller \<Rightarrow> call \<Rightarrow> (error + unit) \<times> movement_controller" where
  "call_unchecked c k =
     (case invoke c k of
        (Raises, c1) \<Rightarrow> (Inl BackendRaised, c1)
      | (Returns v, c1) \<Rightarrow> (Inr (), c1))"

text \<open>Two statements in a row: the second runs when the first has not raised.\<close>

definition and_then ::
  "(error + unit) \<times> movement_controller \<Rightarrow>
   (movement_controller \<Rightarrow> (error + unit) \<times> movement_controller) \<Rightarrow>
   (error + unit) \<times> movement_controller" where
  "and_then r f =
     (case r of
        (Inl e, c) \<Rightarrow> (Inl e, c)
      | (Inr u, c) \<Rightarrow> f c)"

text \<open>
  The two lines that open every \<^verbatim>\<open>try\<close> block of the controller:
  \<^verbatim>\<open>if not self.mesa_driver.is_connected(): self.mesa_driver.connect()\<close>
\<close>

definition connect_if_needed :: "movement_controller \<Rightarrow> (error + unit) \<times> movement_controller" where
  "connect_if_needed c =
     (case invoke c Is_connected of
        (Raises, c1) \<Rightarrow> (Inl BackendRaised, c1)
      | (Returns v, c1) \<Rightarrow> (if truthy v then (Inr (), c1) else call_unchecked c1 Connect))"

text \<open>
  \<^verbatim>\<open>try: self._movement_in_progress = True; body
  except Exception: raise
  finally: self._movement_in_progress = False\<close>
\<close>

definition in_progress ::
  "movement_controller \<Rightarrow>
   (movement_controller \<Rightarrow> (error + unit) \<times> movement_controller) \<Rightarrow>
   (error + unit) \<times> movement_controller" where
  "in_progress c body =
     (case body (c\<lparr>movement_in_progress := True\<rparr>) of
        (r, c1) \<Rightarrow> (r, c1\<lparr>movement_in_progress := False\<rparr>))"

subsection \<open>The methods of MovementController\<close>

text \<open>\<^verbatim>\<open>speed = float(config default) if speed is None else float(speed)\<close>\<close>

definition speed_or_default ::
  "(string \<Rightarrow> real option) \<Rightarrow> pyval \<Rightarrow> real option \<Rightarrow> error + real" where
  "speed_or_default str_float cfg speed =
     (case speed of
        None \<Rightarrow> default_speed str_float cfg
      | Some s \<Rightarrow> Inr s)"

text \<open>\<^verbatim>\<open>if v is None: v = 0.0\<close>\<close>

definition or_zero :: "real option \<Rightarrow> real" where
  "or_zero v = (case v of None \<Rightarrow> 0 | Some x \<Rightarrow> x)"

definition move_single_axis ::
  "(string \<Rightarrow> real option) \<Rightarrow> movement_controller \<Rightarrow> string \<Rightarrow> real option \<Rightarrow> real option \<Rightarrow>
   (error + unit) \<times> movement_controller" where
  "move_single_axis str_float c axis distance speed =
     (if emergency_stop_active c then (Inl SafetyBlocked, c)
      else
        (case speed_or_default str_float (config c) speed of
           Inl e \<Rightarrow> (Inl e, c)
         | Inr s \<Rightarrow>
             (case validate_movement (config c) axis (or_zero distance) s of
                Inl e \<Rightarrow> (Inl e, c)
              | Inr u \<Rightarrow>
                  in_progress c (\<lambda>c0.
                    and_then (connect_if_needed c0) (\<lambda>c1.
                      call_checked c1 (Move_axis axis (or_zero distance) s))))))"

definition move_absolute ::
  "(string \<Rightarrow> real option) \<Rightarrow> movement_controller \<Rightarrow> real option \<Rightarrow> real option \<Rightarrow> real option \<Rightarrow>
   (error + unit) \<times> movement_controller" where
  "move_absolute str_float c x_position y_position speed =
     (if emergency_stop_active c then (Inl SafetyBlocked, c)
      else
        (case speed_or_default str_float (config c) speed of
           Inl e \<Rightarrow> (Inl e, c)
         | Inr s \<Rightarrow>
             (case validate_movement (config c) ''x'' (or_zero x_position) s of
                Inl e \<Rightarrow> (Inl e, c)
              | Inr u \<Rightarrow>
                  (case validate_movement (config c) ''y'' (or_zero y_position) s of
                     Inl e \<Rightarrow> (Inl e, c)
                   | Inr u \<Rightarrow>
                       in_progress c (\<lambda>c0.
                         and_then (connect_if_needed c0) (\<lambda>c1.
                           call_unchecked c1
                             (Move_absolute (or_zero x_position) (or_zero y_position))))))))"

definition move_coordinated ::
  "(string \<Rightarrow> real option) \<Rightarrow> movement_controller \<Rightarrow> real option \<Rightarrow> real option \<Rightarrow> real option \<Rightarrow>
   (error + unit) \<times> movement_controller" where
  "move_coordinated str_float c x_distance y_distance speed =
     (if emergency_stop_active c then (Inl SafetyBlocked, c)
      else
        (case speed_or_default str_float (config c) speed of
           Inl e \<Rightarrow> (Inl e, c)
         | Inr s \<Rightarrow>
             (case validate_movement (config c) ''x'' (or_zero x_distance) s of
                Inl e \<Rightarrow> (Inl e, c)
              | Inr u \<Rightarrow>
                  (case validate_movement (config c) ''y'' (or_zero y_distance) s of
                     Inl e \<Rightarrow> (Inl e, c)
                   | Inr u \<Rightarrow>
                       in_progress c (\<lambda>c0.
                         and_then (connect_if_needed c0) (\<lambda>c1.
                           and_then (call_checked c1 (Move_axis ''x'' (or_zero x_distance) s)) (\<lambda>c2.
                             call_checked c2 (Move_axis ''y'' (or_zero y_distance) s))))))))"

text \<open>
  \<^verbatim>\<open>home_axes(speed)\<close>: the speed is converted and not used; the method does not read
  \<^verbatim>\<open>self._emergency_stop_active\<close>.
\<close>

definition home_axes ::
  "movement_controller \<Rightarrow> real option \<Rightarrow> (error + unit) \<times> movement_controller" where
  "home_axes c speed =
     in_progress c (\<lambda>c0.
       and_then (connect_if_needed c0) (\<lambda>c1.
         call_checked c1 Home_all_axes))"

definition emergency_stop :: "movement_controller \<Rightarrow> (error + unit) \<times> movement_controller" where
  "emergency_stop c =
     and_then (connect_if_needed (c\<lparr>emergency_stop_active := True\<rparr>)) (\<lambda>c1.
       call_unchecked c1 Emergency_stop)"

definition clear_emergency_stop :: "movement_controller \<Rightarrow> (error + unit) \<times> movement_controller" where
  "clear_emergency_stop c =
     and_then (connect_if_needed (c\<lparr>emergency_stop_active := False\<rparr>)) (\<lambda>c1.
       call_unchecked c1 Clear_emergency_stop)"

text \<open>\<^verbatim>\<open>d.get(key, default)\<close> on the entries of a dictionary.\<close>

definition dict_get :: "(string \<times> pyval) list \<Rightarrow> string \<Rightarrow> pyval \<Rightarrow> pyval" where
  "dict_get kvs key dflt =
     (case map_of kvs key of
        None \<Rightarrow> dflt
      | Some v \<Rightarrow> v)"

text \<open>
  \<^verbatim>\<open>get_emergency_stop_status\<close> never raises: every exception of its body (also the
  \<^verbatim>\<open>AttributeError\<close> of \<^verbatim>\<open>.get\<close> on a status that is no dictionary) ends in
  \<^verbatim>\<open>return self._emergency_stop_active\<close>. The flag is kept as the truth value of what
  the status holds under \<^verbatim>\<open>'emergency_stop'\<close>.
\<close>

definition get_emergency_stop_status :: "movement_controller \<Rightarrow> bool \<times> movement_controller" where
  "get_emergency_stop_status c =
     (case connect_if_needed c of
        (Inl e, c1) \<Rightarrow> (emergency_stop_active c1, c1)
      | (Inr u, c1) \<Rightarrow>
          (case invoke c1 Read_status of
             (Raises, c2) \<Rightarrow> (emergency_stop_active c2, c2)
           | (Returns (PDict kvs), c2) \<Rightarrow>
               (if truthy (dict_get kvs ''connected'' (PBool False))
                then (truthy (dict_get kvs ''emergency_stop'' (PBool False)),
                      c2\<lparr>emergency_stop_active :=
                            truthy (dict_get kvs ''emergency_stop'' (PBool False))\<rparr>)
                else (emergency_stop_active c2, c2))
           | (Returns v, c2) \<Rightarrow> (emergency_stop_active c2, c2)))"

definition start_jog ::
  "movement_controller \<Rightarrow> string \<Rightarrow> int \<Rightarrow> real \<Rightarrow> (error + unit) \<times> movement_controller" where
  "start_jog c axis direction speed =
     (if emergency_stop_active c then (Inl SafetyBlocked, c)
      else and_then (connect_if_needed c) (\<lambda>c1. call_checked c1 (Start_jog axis direction speed)))"

definition stop_jog :: "movement_controller \<Rightarrow> string \<Rightarrow> (error + unit) \<times> movement_controller" where
  "stop_jog c axis = and_then (connect_if_needed c) (\<lambda>c1. call_checked c1 (Stop_jog axis))"

definition set_io ::
  "movement_controller \<Rightarrow> string \<Rightarrow> bool \<Rightarrow> (error + unit) \<times> movement_controller" where
  "set_io c io_name state =
     (if io_name \<notin> set [''down'', ''start''] then (Inl ValidationError, c)
      else and_then (connect_if_needed c) (\<lambda>c1.
             call_checked c1 (Set_io (if io_name = ''down'' then 0 else 1) state)))"

subsection \<open>Requests\<close>

text \<open>
  The public operations of the controller as one type of requests, and \<open>run\<close>: the
  controller after a request has been served, whatever its result. The two properties
  \<^verbatim>\<open>emergency_stop_active\<close> and \<^verbatim>\<open>movement_in_progress\<close> only read an attribute.
\<close>

datatype request =
    SingleAxisMove string "real option" "real option"
  | AbsoluteMove "real option" "real option" "real option"
  | CoordinatedMove "real option" "real option" "real option"
  | Home "real option"
  | EmergencyStop
  | ClearEmergencyStop
  | GetEmergencyStopStatus
  | ReadEmergencyStopActive
  | ReadMovementInProgress
  | JogStart string int real
  | JogStop string
  | SetIO string bool

fun run :: "(string \<Rightarrow> real option) \<Rightarrow> movement_controller \<Rightarrow> request \<Rightarrow> movement_controller" where
  "run sf c (SingleAxisMove axis distance speed) = snd (move_single_axis sf c axis distance speed)"
| "run sf c (AbsoluteMove x y speed) = snd (move_absolute sf c x y speed)"
| "run sf c (CoordinatedMove dx dy speed) = snd (move_coordinated sf c dx dy speed)"
| "run sf c (Home speed) = snd (home_axes c speed)"
| "run sf c EmergencyStop = snd (emergency_stop c)"
| "run sf c ClearEmergencyStop = snd (clear_emergency_stop c)"
| "run sf c GetEmergencyStopStatus = snd (get_emergency_stop_status c)"
| "run sf c ReadEmergencyStopActive = c"
| "run sf c ReadMovementInProgress = c"
| "run sf c (JogStart axis direction speed) = snd (start_jog c axis direction speed)"
| "run sf c (JogStop axis) = snd (stop_jog c axis)"
| "run sf c (SetIO io_name state) = snd (set_io c io_name state)"

text \<open>The four operations that set the movement flag.\<close>

fun is_motion :: "request \<Rightarrow> bool" where
  "is_motion (SingleAxisMove axis distance speed) = True"
| "is_motion (AbsoluteMove x y speed) = True"
| "is_motion (CoordinatedMove dx dy speed) = True"
| "is_motion (Home speed) = True"
| "is_motion r = False"


text \<open>The events a request has added to the history.\<close>

definition new_events :: "movement_controller \<Rightarrow> movement_controller \<Rightarrow> event list" where
  "new_events c c' = drop (length (history c)) (history c')"

text \<open>A driver call has succeeded when it returned a true value.\<close>

fun succeeded :: "reply \<Rightarrow> bool" where
  "succeeded (Returns v) = truthy v"
| "succeeded Raises = False"

subsection \<open>Example drivers, configurations and controllers\<close>

text \<open>
  \<^verbatim>\<open>MesaDriver\<close> on a machine without the \<^verbatim>\<open>linuxcnc\<close> module (the import at the head of
  \<^verbatim>\<open>mesa_driver.py\<close> has failed and \<^verbatim>\<open>linuxcnc = None\<close>): \<^verbatim>\<open>connect\<close> catches its own
  \<^verbatim>\<open>RuntimeError\<close> and returns \<^verbatim>\<open>False\<close>, \<^verbatim>\<open>is_connected\<close> stays \<^verbatim>\<open>False\<close>, every
  command returns \<^verbatim>\<open>False\<close> at its \<^verbatim>\<open>if not self.is_connected()\<close> test, and
  \<^verbatim>\<open>read_status\<close> returns its not-connected dictionary.
\<close>

fun offline_driver :: "call list \<Rightarrow> call \<Rightarrow> reply" where
  "offline_driver h Read_status =
     Returns (PDict [(''connected'', PBool False), (''error'', PStr ''Not connected'')])"
| "offline_driver h k = Returns (PBool False)"

text \<open>
  \<^verbatim>\<open>MesaDriver\<close> beside a LinuxCNC that accepts every command: connected once \<^verbatim>\<open>connect\<close>
  has been called, every command of a connected driver returns \<^verbatim>\<open>True\<close> unless its axis,
  direction or channel is not one the driver knows, and \<^verbatim>\<open>read_status\<close> reports under
  \<^verbatim>\<open>'emergency_stop'\<close> the \<^verbatim>\<open>estop\<close> value of LinuxCNC (0 or 1), here the parameter
  \<open>estop\<close>.
\<close>

fun online_driver :: "pyval \<Rightarrow> call list \<Rightarrow> call \<Rightarrow> reply" where
  "online_driver estop h Connect = Returns (PBool True)"
| "online_driver estop h Is_connected = Returns (PBool (Connect \<in> set h))"
| "online_driver estop h Read_status =
     (if Connect \<in> set h
      then Returns (PDict [
             (''connected'', PBool True),
             (''machine_state'', PStr ''done''),
             (''x_axis'', PDict [(''velocity'', PNum 0), (''min_position_limit'', PNum 0),
                                 (''max_position_limit'', PNum 4), (''position'', PNum 0)]),
             (''y_axis'', PDict [(''velocity'', PNum 0), (''min_position_limit'', PNum 0),
                                 (''max_position_limit'', PNum 3), (''position'', PNum 0)]),
             (''limit_switches'', PDict [(''x_min'', PBool False), (''x_max'', PBool False),
                                         (''y_min'', PBool False), (''y_max'', PBool False)]),
             (''emergency_stop'', estop),
             (''error'', PNone)])
      else Returns (PDict [(''connected'', PBool False), (''error'', PStr ''Not connected'')]))"
| "online_driver estop h (Move_axis axis distance speed) =
     Returns (PBool (axis \<in> set [''x'', ''y''] \<and> Connect \<in> set h))"
| "online_driver estop h (Start_jog axis direction speed) =
     Returns (PBool (axis \<in> set [''x'', ''y''] \<and> direction \<in> set [1, - 1] \<and> Connect \<in> set h))"
| "online_driver estop h (Stop_jog axis) =
     Returns (PBool (axis \<in> set [''x'', ''y''] \<and> Connect \<in> set h))"
| "online_driver estop h (Set_io channel state) =
     Returns (PBool (Connect \<in> set h \<and> channel \<in> set [0, 1]))"
| "online_driver estop h k = Returns (PBool (Connect \<in> set h))"

text \<open>
  A configuration with the sections that \<^verbatim>\<open>ConfigManager._validate_config\<close> expects and
  the key that \<^verbatim>\<open>_validate_movement\<close> reads.
\<close>

definition table_config :: pyval where
  "table_config =
     PDict [
       (''table'', PDict [
          (''x_axis'', PDict [(''min_position'', PNum 0), (''max_position'', PNum 4),
                              (''default_speed'', PNum 1), (''max_speed'', PNum 5)]),
          (''y_axis'', PDict [(''min_position'', PNum 0), (''max_position'', PNum 3),
                              (''default_speed'', PNum 1), (''max_speed'', PNum 5)])]),
       (''hardware'', PDict [
          (''x_axis'', PDict [(''motor'', PDict [(''max_speed'', PNum 5)])]),
          (''y_axis'', PDict [(''motor'', PDict [(''max_speed'', PNum 5)])])]),
       (''movement'', PDict [(''default_speed'', PNum 2)])]"


text \<open>
  The driver \<open>online_driver\<close> with one fault: every move of the Y axis returns \<^verbatim>\<open>False\<close>
  (\<^verbatim>\<open>MesaDriver.move_axis\<close> returns \<^verbatim>\<open>False\<close> when the jog command of LinuxCNC raises).
\<close>

fun y_fault_driver :: "call list \<Rightarrow> call \<Rightarrow> reply" where
  "y_fault_driver h (Move_axis axis distance speed) =
     (if axis = ''y'' then Returns (PBool False) else online_driver (PNum 0) h (Move_axis axis distance speed))"
| "y_fault_driver h k = online_driver (PNum 0) h k"


definition stopped_online :: movement_controller where
  "stopped_online = snd (emergency_stop (init table_config (online_driver (PNum 1))))"

definition stopped_offline :: movement_controller where
  "stopped_offline = snd (emergency_stop (init table_config offline_driver))"

text \<open>No string of the two configurations is read as a number.\<close>

definition no_str_float :: "string \<Rightarrow> real option" where
  "no_str_float s = None"

subsection \<open>Calls that touch the driver only\<close>

text \<open>
  \<open>only_calls c c'\<close>: the controller \<open>c'\<close> is \<open>c\<close> after some driver calls and nothing
  else; every attribute is as in \<open>c\<close>, and each event added to the history carries the
  flags of \<open>c\<close>.
\<close>

definition only_calls :: "movement_controller \<Rightarrow> movement_controller \<Rightarrow> bool" where
  "only_calls c c' \<longleftrightarrow>
     (\<exists>new. c' = c\<lparr>history := history c @ new\<rparr> \<and>
            (\<forall>e \<in> set new. ev_estop e = emergency_stop_active c \<and>
                            ev_moving e = movement_in_progress c))"


text \<open>
  \<open>motion_outcome c c'\<close>: what a motion operation leaves of the controller \<open>c\<close>. Either
  nothing has happened, or driver calls were made while the movement flag was set and the
  flag is cleared at the end.
\<close>

definition motion_outcome :: "movement_controller \<Rightarrow> movement_controller \<Rightarrow> bool" where
  "motion_outcome c c' \<longleftrightarrow>
     c' = c \<or>
     (\<exists>new. c' = c\<lparr>history := history c @ new, movement_in_progress := False\<rparr> \<and>
            (\<forall>e \<in> set new. ev_moving e \<and> ev_estop e = emergency_stop_active c))"

section \<open>Properties\<close>

subsection \<open>Driver calls leave the attributes of the controller alone\<close>

lemma only_calls_refl: "only_calls c c"
  unfolding only_calls_def by (rule exI [of _ "[]"]) simp

lemma only_calls_trans:
  assumes "only_calls a b" and "only_calls b c"
  shows "only_calls a c"
proof -
  from assms(1) obtain n1 where b: "b = a\<lparr>history := history a @ n1\<rparr>"
    and e1: "\<forall>e \<in> set n1. ev_estop e = emergency_stop_active a \<and> ev_moving e = movement_in_progress a"
    unfolding only_calls_def by blast
  from assms(2) obtain n2 where c: "c = b\<lparr>history := history b @ n2\<rparr>"
    and e2: "\<forall>e \<in> set n2. ev_estop e = emergency_stop_active b \<and> ev_moving e = movement_in_progress b"
    unfolding only_calls_def by blast
  have "c = a\<lparr>history := history a @ (n1 @ n2)\<rparr>"
    using b c by simp
  moreover have "\<forall>e \<in> set (n1 @ n2). ev_estop e = emergency_stop_active a \<and> ev_moving e = movement_in_progress a"
    using e1 e2 b by auto
  ultimately show ?thesis
    unfolding only_calls_def by blast
qed

lemma only_calls_fields:
  assumes "only_calls c c'"
  shows "config c' = config c" and "emergency_stop_active c' = emergency_stop_active c"
    and "movement_in_progress c' = movement_in_progress c" and "driver c' = driver c"
  using assms unfolding only_calls_def by auto

lemma invoke_only_calls: "only_calls c (snd (invoke c k))"
  unfolding only_calls_def invoke_def
  by (rule exI [of _ "[\<lparr>ev_call = k, ev_estop = emergency_stop_active c, ev_moving = movement_in_progress c\<rparr>]"]) simp

lemma call_checked_only_calls: "only_calls c (snd (call_checked c k))"
  using invoke_only_calls [of c k]
  by (auto simp: call_checked_def split: prod.splits reply.splits)

lemma call_unchecked_only_calls: "only_calls c (snd (call_unchecked c k))"
  using invoke_only_calls [of c k]
  by (auto simp: call_unchecked_def split: prod.splits reply.splits)

lemma connect_if_needed_only_calls: "only_calls c (snd (connect_if_needed c))"
proof -
  obtain r c1 where i: "invoke c Is_connected = (r, c1)" by (cases "invoke c Is_connected")
  have s1: "only_calls c c1" using invoke_only_calls [of c Is_connected] i by simp
  have s2: "only_calls c (snd (call_unchecked c1 Connect))"
    using s1 call_unchecked_only_calls [of c1 Connect] by (rule only_calls_trans)
  show ?thesis
    using i s1 s2 by (simp add: connect_if_needed_def split: reply.splits)
qed

lemma and_then_only_calls:
  assumes "only_calls c (snd r)" and "\<And>c1. only_calls c1 (snd (f c1))"
  shows "only_calls c (snd (and_then r f))"
proof (cases r)
  case (Pair x c1)
  show ?thesis
  proof (cases x)
    case (Inl e)
    then show ?thesis using Pair assms(1) by (simp add: and_then_def)
  next
    case (Inr u)
    have "only_calls c (snd (f c1))"
      using assms(1) assms(2) [of c1] Pair by (auto intro: only_calls_trans)
    then show ?thesis using Pair Inr by (simp add: and_then_def)
  qed
qed

subsection \<open>The results of driver calls\<close>







subsection \<open>Validation\<close>

lemma validate_movement_numeric:
  assumes "max_speed cfg axis = PNum m"
  shows "validate_movement cfg axis d s = (if m < s then Inl ValidationError else Inr ())"
  using assms by (simp add: validate_movement_def)

lemma table_config_limits:
  "max_speed table_config ''x'' = PNum 5" "max_speed table_config ''y'' = PNum 5"
  by (simp_all add: max_speed_def config_get_def table_config_def)



subsection \<open>The history only grows\<close>





lemma in_progress_fst:
  "fst (in_progress c body) = fst (body (c\<lparr>movement_in_progress := True\<rparr>))"
  by (cases "body (c\<lparr>movement_in_progress := True\<rparr>)") (simp add: in_progress_def)

lemma connect_if_needed_driver:
  assumes "connect_if_needed c = (r, c1)"
  shows "driver c1 = driver c"
  using connect_if_needed_only_calls [of c] assms by (simp add: only_calls_fields)

subsection \<open>What a motion operation leaves behind\<close>

lemma in_progress_outcome:
  assumes "\<And>c0. only_calls c0 (snd (body c0))"
  shows "motion_outcome c (snd (in_progress c body))"
proof -
  let ?c0 = "c\<lparr>movement_in_progress := True\<rparr>"
  from assms [of ?c0] obtain new where
    n: "snd (body ?c0) = ?c0\<lparr>history := history ?c0 @ new\<rparr>"
    and e: "\<forall>e \<in> set new. ev_estop e = emergency_stop_active ?c0 \<and>
                           ev_moving e = movement_in_progress ?c0"
    unfolding only_calls_def by blast
  have "snd (in_progress c body) = c\<lparr>history := history c @ new, movement_in_progress := False\<rparr>"
    using n by (cases "body ?c0") (simp add: in_progress_def)
  moreover have "\<forall>e \<in> set new. ev_moving e \<and> ev_estop e = emergency_stop_active c"
    using e by simp
  ultimately show ?thesis
    unfolding motion_outcome_def by blast
qed

lemma motion_outcome_refl: "motion_outcome c c"
  by (simp add: motion_outcome_def)

lemma driver_block_only_calls:
  "only_calls c0 (snd (and_then (connect_if_needed c0) (\<lambda>c1. call_checked c1 k)))"
  "only_calls c0 (snd (and_then (connect_if_needed c0) (\<lambda>c1. call_unchecked c1 k)))"
  "only_calls c0 (snd (and_then (connect_if_needed c0)
     (\<lambda>c1. and_then (call_checked c1 k) (\<lambda>c2. call_checked c2 k'))))"
  by (intro and_then_only_calls connect_if_needed_only_calls call_checked_only_calls
      call_unchecked_only_calls)+

lemma move_single_axis_outcome:
  "motion_outcome c (snd (move_single_axis sf c axis distance speed))"
  unfolding move_single_axis_def
  by (auto simp: motion_outcome_refl in_progress_outcome driver_block_only_calls
      split: sum.splits)

lemma move_absolute_outcome:
  "motion_outcome c (snd (move_absolute sf c x y speed))"
  unfolding move_absolute_def
  by (auto simp: motion_outcome_refl in_progress_outcome driver_block_only_calls
      split: sum.splits)

lemma move_coordinated_outcome:
  "motion_outcome c (snd (move_coordinated sf c dx dy speed))"
  unfolding move_coordinated_def
  by (auto simp: motion_outcome_refl in_progress_outcome driver_block_only_calls
      split: sum.splits)

lemma home_axes_outcome:
  "motion_outcome c (snd (home_axes c speed))"
  unfolding home_axes_def
  by (simp add: in_progress_outcome driver_block_only_calls)

lemma motion_outcome_run:
  assumes "is_motion req"
  shows "motion_outcome c (run sf c req)"
  using assms
  by (cases req)
     (simp_all add: move_single_axis_outcome move_absolute_outcome move_coordinated_outcome
        home_axes_outcome)


lemma jog_and_io_only_calls:
  "only_calls c (snd (start_jog c axis direction speed))"
  "only_calls c (snd (stop_jog c axis))"
  "only_calls c (snd (set_io c io_name state))"
  by (simp_all add: start_jog_def stop_jog_def set_io_def only_calls_refl driver_block_only_calls)



subsection \<open>The example controllers, evaluated\<close>

lemmas block_defs = in_progress_def and_then_def connect_if_needed_def
  call_checked_def call_unchecked_def invoke_def calls_def

lemma stopped_online_eval:
  "stopped_online =
     \<lparr>config = table_config, emergency_stop_active = True, movement_in_progress = False,
      driver = online_driver (PNum 1),
      history = [\<lparr>ev_call = Is_connected, ev_estop = True, ev_moving = False\<rparr>,
                 \<lparr>ev_call = Connect, ev_estop = True, ev_moving = False\<rparr>,
                 \<lparr>ev_call = Emergency_stop, ev_estop = True, ev_moving = False\<rparr>]\<rparr>"
  by (simp add: stopped_online_def emergency_stop_def init_def block_defs)

lemma stopped_offline_eval:
  "stopped_offline =
     \<lparr>config = table_config, emergency_stop_active = True, movement_in_progress = False,
      driver = offline_driver,
      history = [\<lparr>ev_call = Is_connected, ev_estop = True, ev_moving = False\<rparr>,
                 \<lparr>ev_call = Connect, ev_estop = True, ev_moving = False\<rparr>,
                 \<lparr>ev_call = Emergency_stop, ev_estop = True, ev_moving = False\<rparr>]\<rparr>"
  by (simp add: stopped_offline_def emergency_stop_def init_def block_defs)


subsection \<open>Blocking while the emergency stop is active\<close>

lemma estop_blocks_moves_and_jog:
  assumes "emergency_stop_active c"
  shows "move_single_axis sf c axis distance speed = (Inl SafetyBlocked, c)"
    and "move_absolute sf c x y speed = (Inl SafetyBlocked, c)"
    and "move_coordinated sf c dx dy speed = (Inl SafetyBlocked, c)"
    and "start_jog c axis direction jog_speed = (Inl SafetyBlocked, c)"
  using assms
  by (simp_all add: move_single_axis_def move_absolute_def move_coordinated_def start_jog_def)

text \<open>
  Claim C1. With the emergency stop active, every motion operation should fail with
  \<open>SafetyBlocked\<close> before any driver call. \<^verbatim>\<open>home_axes\<close> does not: on the controller that
  has just served \<^verbatim>\<open>emergency_stop()\<close>, with a driver that accepts every command, it
  returns without an exception and has called \<^verbatim>\<open>is_connected\<close> and \<^verbatim>\<open>home_all_axes\<close> on
  the driver. (The three moves and \<^verbatim>\<open>start_jog\<close> are blocked: \<open>estop_blocks_moves_and_jog\<close>.)
\<close>

theorem home_axes_ignores_emergency_stop:
  "emergency_stop_active stopped_online \<and>
   fst (home_axes stopped_online None) = Inr () \<and>
   calls (snd (home_axes stopped_online None)) =
     calls stopped_online @ [Is_connected, Home_all_axes]"
  by (simp add: stopped_online_eval home_axes_def block_defs)

subsection \<open>Clearing and asserting the emergency stop\<close>

lemma clear_emergency_stop_clears_flag:
  "\<not> emergency_stop_active (snd (clear_emergency_stop c))"
  using driver_block_only_calls(2) [of "c\<lparr>emergency_stop_active := False\<rparr>" Clear_emergency_stop]
  by (simp add: clear_emergency_stop_def only_calls_fields)

text \<open>
  Claim C2. When the driver's clear call fails, the emergency-stop flag should stay set.
  It does not: \<^verbatim>\<open>clear_emergency_stop\<close> assigns \<^verbatim>\<open>False\<close> to the flag before it calls
  the driver. On the stopped controller whose driver is offline, the driver's
  \<^verbatim>\<open>clear_emergency_stop\<close> returns \<^verbatim>\<open>False\<close>, the method returns without an exception, and
  the flag is cleared.
\<close>

theorem clear_emergency_stop_ignores_failure:
  "emergency_stop_active stopped_offline \<and>
   driver stopped_offline (calls stopped_offline @ [Is_connected, Connect]) Clear_emergency_stop
     = Returns (PBool False) \<and>
   fst (clear_emergency_stop stopped_offline) = Inr () \<and>
   calls (snd (clear_emergency_stop stopped_offline)) =
     calls stopped_offline @ [Is_connected, Connect, Clear_emergency_stop] \<and>
   \<not> emergency_stop_active (snd (clear_emergency_stop stopped_offline))"
  by (simp add: stopped_offline_eval clear_emergency_stop_def block_defs)

lemma emergency_stop_flag_before_driver:
  "list_all ev_estop (new_events c (snd (emergency_stop c)))"
proof -
  from driver_block_only_calls(2) [of "c\<lparr>emergency_stop_active := True\<rparr>" Emergency_stop]
  show ?thesis
    unfolding only_calls_def emergency_stop_def new_events_def
    by (auto simp: list_all_iff)
qed

text \<open>
  Claim C3. \<^verbatim>\<open>emergency_stop\<close> sets the flag before it calls the driver, the flag is set
  afterwards (\<open>emergency_stop_sets_flag\<close>, \<open>emergency_stop_flag_before_driver\<close>), and a
  failure of the driver's call should reach the caller as an error. A failure that the
  driver reports by returning \<^verbatim>\<open>False\<close> does not: the value returned is dropped. On a
  fresh controller whose driver is offline, the driver's \<^verbatim>\<open>emergency_stop\<close> returns
  \<^verbatim>\<open>False\<close> and the method returns without an exception.
\<close>

theorem emergency_stop_drops_failure:
  "offline_driver [Is_connected, Connect] Emergency_stop = Returns (PBool False) \<and>
   fst (emergency_stop (init table_config offline_driver)) = Inr () \<and>
   calls (snd (emergency_stop (init table_config offline_driver))) =
     [Is_connected, Connect, Emergency_stop] \<and>
   emergency_stop_active (snd (emergency_stop (init table_config offline_driver)))"
  by (simp add: emergency_stop_def init_def block_defs)

subsection \<open>Who assigns the emergency-stop flag\<close>




subsection \<open>The speed check\<close>










subsection \<open>The default speed\<close>



subsection \<open>The coordinated move\<close>

text \<open>
  Claim C9. Once \<^verbatim>\<open>move_coordinated(dx, dy, speed)\<close> has passed the stop check, the speed checks
  and the connection step, it calls the driver's \<^verbatim>\<open>move_axis\<close> for X and then, only if
  that call has succeeded, for Y, and makes no other driver call: after a failed X move
  the history ends with the X move, and after a failed Y move it ends with the Y move,
  with no move that undoes X. The operation returns without an exception exactly when
  both moves have succeeded.
\<close>

theorem move_coordinated_x_then_y:
  assumes "\<not> emergency_stop_active c"
    and "validate_movement (config c) ''x'' dx s = Inr ()"
    and "validate_movement (config c) ''y'' dy s = Inr ()"
    and "connect_if_needed (c\<lparr>movement_in_progress := True\<rparr>) = (Inr (), c1)"
  shows "calls (snd (move_coordinated sf c (Some dx) (Some dy) (Some s))) =
           calls c1 @
             (if succeeded (driver c (calls c1) (Move_axis ''x'' dx s))
              then [Move_axis ''x'' dx s, Move_axis ''y'' dy s]
              else [Move_axis ''x'' dx s]) \<and>
         (fst (move_coordinated sf c (Some dx) (Some dy) (Some s)) = Inr () \<longleftrightarrow>
            succeeded (driver c (calls c1) (Move_axis ''x'' dx s)) \<and>
            succeeded (driver c (calls c1 @ [Move_axis ''x'' dx s]) (Move_axis ''y'' dy s)))"
proof -
  have d: "driver c1 = driver c"
    using connect_if_needed_driver [OF assms(4)] by simp
  have eq: "move_coordinated sf c (Some dx) (Some dy) (Some s) =
              in_progress c (\<lambda>c0. and_then (connect_if_needed c0)
                (\<lambda>c1. and_then (call_checked c1 (Move_axis ''x'' dx s))
                  (\<lambda>c2. call_checked c2 (Move_axis ''y'' dy s))))"
    using assms(1-3) by (simp add: move_coordinated_def speed_or_default_def or_zero_def)
  show ?thesis
    unfolding eq
    using assms(4) d
    by (cases "driver c (calls c1) (Move_axis ''x'' dx s)";
        cases "driver c (calls c1 @ [Move_axis ''x'' dx s]) (Move_axis ''y'' dy s)")
       (simp_all add: in_progress_def and_then_def call_checked_def invoke_def calls_def)
qed

text \<open>
  Claim C9 at a driver whose Y moves fail: X and Y are dispatched in this order, nothing
  follows the failed Y move, and the operation raises.
\<close>

theorem move_coordinated_x_then_y_witness:
  "\<not> emergency_stop_active (init table_config y_fault_driver) \<and>
   validate_movement (config (init table_config y_fault_driver)) ''x'' 1 3 = Inr () \<and>
   validate_movement (config (init table_config y_fault_driver)) ''y'' 2 3 = Inr () \<and>
   calls (snd (move_coordinated no_str_float (init table_config y_fault_driver)
                 (Some 1) (Some 2) (Some 3))) =
     [Is_connected, Connect, Move_axis ''x'' 1 3, Move_axis ''y'' 2 3] \<and>
   fst (move_coordinated no_str_float (init table_config y_fault_driver)
          (Some 1) (Some 2) (Some 3)) \<noteq> Inr ()"
proof -
  let ?c = "init table_config y_fault_driver"
  let ?c1 = "?c\<lparr>movement_in_progress := True,
                 history := [\<lparr>ev_call = Is_connected, ev_estop = False, ev_moving = True\<rparr>,
                             \<lparr>ev_call = Connect, ev_estop = False, ev_moving = True\<rparr>]\<rparr>"
  have a: "\<not> emergency_stop_active ?c"
    by (simp add: init_def)
  have x: "validate_movement (config ?c) ''x'' 1 3 = Inr ()"
    and y: "validate_movement (config ?c) ''y'' 2 3 = Inr ()"
    by (simp_all add: init_def validate_movement_numeric table_config_limits)
  have k: "connect_if_needed (?c\<lparr>movement_in_progress := True\<rparr>) = (Inr (), ?c1)"
    by (simp add: init_def block_defs)
  show ?thesis
    using a x y move_coordinated_x_then_y [OF a x y k, of no_str_float]
    by (simp add: calls_def init_def)
qed

subsection \<open>The movement flag\<close>

lemma movement_flag_clear_at_rest:
  assumes "\<not> movement_in_progress c"
  shows "\<not> movement_in_progress (run sf c req)"
proof (cases "is_motion req")
  case True
  then show ?thesis
    using motion_outcome_run [of req c sf] assms by (auto simp: motion_outcome_def)
next
  case False
  have e: "movement_in_progress (snd (emergency_stop c)) = movement_in_progress c"
    using driver_block_only_calls(2) [of "c\<lparr>emergency_stop_active := True\<rparr>" Emergency_stop]
    by (simp add: emergency_stop_def only_calls_fields)
  have k: "movement_in_progress (snd (clear_emergency_stop c)) = movement_in_progress c"
    using driver_block_only_calls(2) [of "c\<lparr>emergency_stop_active := False\<rparr>" Clear_emergency_stop]
    by (simp add: clear_emergency_stop_def only_calls_fields)
  have g: "movement_in_progress (snd (get_emergency_stop_status c)) = movement_in_progress c"
  proof -
    obtain r c1 where a: "connect_if_needed c = (r, c1)" by (cases "connect_if_needed c")
    obtain q c2 where b: "invoke c1 Read_status = (q, c2)" by (cases "invoke c1 Read_status")
    have "movement_in_progress c1 = movement_in_progress c"
      using connect_if_needed_only_calls [of c] a by (simp add: only_calls_fields)
    moreover have "movement_in_progress c2 = movement_in_progress c1"
      using invoke_only_calls [of c1 Read_status] b by (simp add: only_calls_fields)
    ultimately show ?thesis
      using a b
      by (simp add: get_emergency_stop_status_def split: sum.splits reply.splits pyval.splits)
  qed
  have j: "movement_in_progress (snd (start_jog c axis direction speed)) = movement_in_progress c"
    for axis direction speed
    using jog_and_io_only_calls(1) by (rule only_calls_fields(3))
  have t: "movement_in_progress (snd (stop_jog c axis)) = movement_in_progress c" for axis
    using jog_and_io_only_calls(2) by (rule only_calls_fields(3))
  have i: "movement_in_progress (snd (set_io c io_name state)) = movement_in_progress c"
    for io_name state
    using jog_and_io_only_calls(3) by (rule only_calls_fields(3))
  show ?thesis
    using False assms e k g j t i
    by (cases req) simp_all
qed

text \<open>
  Claim C10. Between two operations the movement flag is cleared
  (\<open>movement_flag_clear_at_rest\<close>). Served one at a time from such a state, each of
  \<^verbatim>\<open>move_single_axis\<close>, \<^verbatim>\<open>move_absolute\<close>, \<^verbatim>\<open>move_coordinated\<close> and \<^verbatim>\<open>home_axes\<close> leaves the
  flag cleared when it returns, with or without an exception, and every driver call it
  has made found the flag set: the flag is set before the first driver call of the
  operation and cleared after the last.
\<close>

theorem movement_flag_brackets_dispatch:
  assumes "is_motion req" and "\<not> movement_in_progress c"
  shows "\<not> movement_in_progress (run sf c req) \<and>
         history (run sf c req) = history c @ new_events c (run sf c req) \<and>
         list_all ev_moving (new_events c (run sf c req))"
  using motion_outcome_run [OF assms(1), of c sf] assms(2)
  unfolding motion_outcome_def new_events_def
  by (auto simp: list_all_iff)

text \<open>
  Claim C10 at a single-axis move that fails in the driver, which is offline: three driver
  calls, each with the flag set, and the flag cleared at the end.
\<close>

theorem movement_flag_brackets_dispatch_witness:
  "is_motion (SingleAxisMove ''x'' (Some 1) (Some 1)) \<and>
   \<not> movement_in_progress (init table_config offline_driver) \<and>
   \<not> movement_in_progress
       (run no_str_float (init table_config offline_driver) (SingleAxisMove ''x'' (Some 1) (Some 1))) \<and>
   list_all ev_moving
     (new_events (init table_config offline_driver)
        (run no_str_float (init table_config offline_driver) (SingleAxisMove ''x'' (Some 1) (Some 1)))) \<and>
   length (new_events (init table_config offline_driver)
        (run no_str_float (init table_config offline_driver) (SingleAxisMove ''x'' (Some 1) (Some 1)))) = 3"
proof -
  let ?c = "init table_config offline_driver"
  have a: "is_motion (SingleAxisMove ''x'' (Some 1) (Some 1))" by simp
  have b: "\<not> movement_in_progress ?c" by (simp add: init_def)
  have n: "length (new_events ?c (run no_str_float ?c (SingleAxisMove ''x'' (Some 1) (Some 1)))) = 3"
    by (simp add: new_events_def move_single_axis_def speed_or_default_def or_zero_def
        validate_movement_numeric table_config_limits init_def block_defs)
  show ?thesis
    using a b n movement_flag_brackets_dispatch [OF a b, of no_str_float] by blast
qed

end
